theory Spec2Isabelle
  imports Complex_Main
begin

section \<open>Python values and exceptions\<close>

text \<open>
  The package \<^verbatim>\<open>db_qa_diff\<close> compares two tables that live in two databases: it
  creates a temporary copy of the first table inside the second database
  (\<^verbatim>\<open>_create_table1_in_engine2\<close>), streams the rows over in batches
  (\<^verbatim>\<open>_copy_table1_to_engine2\<close>) and runs two SQL \<^verbatim>\<open>EXCEPT\<close> queries
  (\<^verbatim>\<open>_compare_tables\<close>); \<^verbatim>\<open>recorddiff\<close> drives the three for every entry of
  \<^verbatim>\<open>tables\<close>.

  The entries of \<^verbatim>\<open>tables\<close> are dynamically typed: a \<^verbatim>\<open>str\<close>, a sequence, or
  anything else. \<open>PyOther\<close> stands for every value that is neither a \<^verbatim>\<open>str\<close> nor
  a \<^verbatim>\<open>collections.abc.Sequence\<close>. Strings are lists of 8-bit characters, so the
  model speaks about ASCII names.
\<close>

datatype pyval = PyStr string | PySeq "pyval list" | PyOther int

datatype error =
    NotImplementedError
  | AssertionError
  | TypeError
  | AttributeError
  | ZeroDivisionError
  | NoSuchTableError

text \<open>\<^verbatim>\<open>str.lower()\<close> on ASCII text: the letters A to Z move to a to z.\<close>

definition lower_char :: "char \<Rightarrow> char" where
  "lower_char c =
     (let n = (of_char c :: nat) in if 65 \<le> n \<and> n \<le> 90 then char_of (n + 32) else c)"

definition str_lower :: "string \<Rightarrow> string" where
  "str_lower s = map lower_char s"

text \<open>
  Iterating a Python value (\<^verbatim>\<open>for table in entry\<close>): a sequence yields its members,
  anything else is not iterable. (A \<^verbatim>\<open>str\<close> never reaches the loop of
  \<^verbatim>\<open>_create_drop_cols\<close>: it is wrapped in a list first.)
\<close>

fun py_iter :: "pyval \<Rightarrow> error + pyval list" where
  "py_iter (PySeq xs) = Inr xs"
| "py_iter (PyStr s) = Inr (map (\<lambda>c. PyStr [c]) s)"
| "py_iter (PyOther v) = Inl TypeError"

text \<open>
  True division \<^verbatim>\<open>a / b\<close> of two Python ints. The quotient is kept as an exact
  rational; the rounding to a binary float is not modelled.
\<close>

definition py_truediv :: "int \<Rightarrow> int \<Rightarrow> error + rat" where
  "py_truediv a b = (if b = 0 then Inl ZeroDivisionError else Inr (of_int a / of_int b))"

section \<open>The SQLAlchemy objects the package handles\<close>

datatype sa_type = SA_Integer | SA_Numeric | SA_String nat | SA_Text | SA_Date | SA_Other string

text \<open>
  A column has a name and a type, the flags reflection fills in, and the table it is
  attached to (\<open>None\<close> for a column just made by \<^verbatim>\<open>sa.Column(name, type)\<close>).
\<close>

record column =
  col_name :: string
  col_type :: sa_type
  col_primary_key :: bool
  col_nullable :: bool
  col_table :: "string option"

record sa_table =
  t_name :: string
  t_schema :: "string option"
  t_cols :: "column list"
  t_prefixes :: "string list"

text \<open>\<^verbatim>\<open>str(table)\<close>: the name, qualified by the schema when there is one.\<close>

definition fullname :: "sa_table \<Rightarrow> string" where
  "fullname t = (case t_schema t of None \<Rightarrow> t_name t | Some s \<Rightarrow> s @ ''.'' @ t_name t)"

text \<open>\<^verbatim>\<open>sa.Column(name, type)\<close>: only name and type are given, the rest are defaults.\<close>

definition sa_Column :: "string \<Rightarrow> sa_type \<Rightarrow> column" where
  "sa_Column n ty =
     \<lparr>col_name = n, col_type = ty, col_primary_key = False, col_nullable = True,
      col_table = None\<rparr>"

text \<open>
  \<^verbatim>\<open>sa.Table(name, metadata, *cols, schema=..., prefixes=...)\<close>: the columns are
  attached to the new table. The registry of tables a \<^verbatim>\<open>MetaData\<close> object keeps is
  not modelled.
\<close>

definition sa_Table :: "string \<Rightarrow> string option \<Rightarrow> column list \<Rightarrow> string list \<Rightarrow> sa_table" where
  "sa_Table n sch cols pre =
     (let t = \<lparr>t_name = n, t_schema = sch, t_cols = [], t_prefixes = pre\<rparr>
      in t\<lparr>t_cols := map (\<lambda>c. c\<lparr>col_table := Some (fullname t)\<rparr>) cols\<rparr>)"

record engine =
  eng_name :: string
  eng_host :: string

datatype sql_value = IntV int | StrV string | NullV

type_synonym row = "(string \<times> sql_value) list"

text \<open>The statements the package builds, as SQLAlchemy expression trees.\<close>

datatype stmt =
    SelectCount sa_table
  | SelectTable sa_table
  | SelectColumns "column list"
  | Except stmt stmt
  | Insert sa_table

text \<open>The names of the columns a query returns.\<close>

fun projection :: "stmt \<Rightarrow> string list" where
  "projection (SelectCount t) = [''count_1'']"
| "projection (SelectTable t) = map col_name (t_cols t)"
| "projection (SelectColumns cs) = map col_name cs"
| "projection (Except a b) = projection a"
| "projection (Insert t) = []"

text \<open>
  What a connection answers is not the package's business, so it is a parameter: for
  every statement the scalar of its single row (used for the counts), the
  \<^verbatim>\<open>rowcount\<close> the driver reports (\<open>-1\<close> where the driver does not know it), and the
  rows the cursor yields. Calls into the driver are taken to return; the failures of
  the database are outside the model.
\<close>

record conn =
  scalar_result :: "stmt \<Rightarrow> int"
  result_rowcount :: "stmt \<Rightarrow> int"
  result_rows :: "stmt \<Rightarrow> row list"

text \<open>What the package prints, with the arguments of each format string.\<close>

datatype out_line =
    Banner
  | Transferring string string string
  | Progress int int rat
  | Blank
  | AppearLine string int string rat int
  | DisappearLine string int string rat int
  | RowLine row
  | NotFound1 string
  | NotFound2 string

text \<open>Everything a run does to the outside world, in order.\<close>

datatype event =
    Reflect1 "string option" string
  | Reflect2 "string option" string
  | CreateTable sa_table
  | Begin1
  | Begin2
  | Execute1 stmt
  | Execute2 stmt "row list"
  | Commit2
  | Commit1
  | Rollback2
  | Rollback1
  | Print out_line

section \<open>The bucket\<close>

text \<open>
  \<^verbatim>\<open>_Bucket\<close>. The field \<^verbatim>\<open>table1_in_engine2\<close> is declared with
  \<^verbatim>\<open>field(init=False)\<close> and no default: the attribute does not exist until
  \<^verbatim>\<open>recorddiff\<close> assigns it, which is \<open>None\<close> here. The two \<^verbatim>\<open>MetaData\<close>
  objects are left out (see \<open>sa_Table\<close>).
\<close>

record bucket =
  t1name :: string
  t2name :: string
  host1 :: string
  host2 :: string
  engine1 :: engine
  engine2 :: engine
  table1 :: sa_table
  table2 :: sa_table
  table1_in_engine2 :: "sa_table option"
  drop_cols :: "string list"

section \<open>Staging table: \<^verbatim>\<open>_create_table1_in_engine2\<close>\<close>

text \<open>
  The loop \<^verbatim>\<open>for col in b.table2.c: if col.name not in b.drop_cols: l.append(...)\<close>,
  with the list \<open>l\<close> as accumulator.
\<close>

fun staging_cols_loop :: "string list \<Rightarrow> column list \<Rightarrow> column list \<Rightarrow> column list" where
  "staging_cols_loop dc [] l = l"
| "staging_cols_loop dc (col # cols) l =
     (if col_name col \<notin> set dc
      then staging_cols_loop dc cols (l @ [sa_Column (col_name col) (col_type col)])
      else staging_cols_loop dc cols l)"

text \<open>
  The function returns the new table; \<^verbatim>\<open>table1_in_engine2.create(bind=b.engine2)\<close>
  is the one event it causes. The DDL goes through the engine, not through a
  connection of the caller.
\<close>

definition create_table1_in_engine2 :: "bucket \<Rightarrow> event list \<times> sa_table" where
  "create_table1_in_engine2 b =
     (let l = staging_cols_loop (drop_cols b) (t_cols (table2 b)) [];
          st = sa_Table (fullname (table1 b) @ ''_table1_in_engine2'') None l [''TEMPORARY'']
      in ([CreateTable st], st))"

section \<open>Columns to ignore: \<^verbatim>\<open>_create_drop_cols\<close>\<close>

text \<open>
  A value of \<^verbatim>\<open>ignore_cols\<close> is one column name or a list (or tuple) of names. The
  dictionary is the list of its items, in insertion order.
\<close>

datatype ignore_val = OneCol string | ManyCols "string list"

type_synonym ignore_dict = "(string \<times> ignore_val) list"

text \<open>The inner loop \<^verbatim>\<open>for table in entry\<close>, for one item \<open>(k, v)\<close>.\<close>

fun extend_for_item :: "string \<Rightarrow> ignore_val \<Rightarrow> pyval list \<Rightarrow> string list \<Rightarrow> string list" where
  "extend_for_item k v [] extend_cols = extend_cols"
| "extend_for_item k v (tbl # tbls) extend_cols =
     (if PyStr k = tbl
      then (case v of
              ManyCols vs \<Rightarrow> extend_for_item k v tbls (extend_cols @ vs)
            | OneCol c \<Rightarrow> extend_for_item k v tbls (extend_cols @ [c]))
      else extend_for_item k v tbls extend_cols)"

text \<open>The outer loop \<^verbatim>\<open>for k, v in ignore_cols.items()\<close>.\<close>

fun extend_loop :: "ignore_dict \<Rightarrow> pyval \<Rightarrow> string list \<Rightarrow> error + string list" where
  "extend_loop [] entry extend_cols = Inr extend_cols"
| "extend_loop ((k, v) # items) entry extend_cols =
     (case py_iter entry of
        Inl e \<Rightarrow> Inl e
      | Inr tbls \<Rightarrow> extend_loop items entry (extend_for_item k v tbls extend_cols))"

definition create_drop_cols :: "string list \<Rightarrow> ignore_dict \<Rightarrow> pyval \<Rightarrow> error + string list" where
  "create_drop_cols ignore_all ignore_cols entry =
     (let dcols = map str_lower ignore_all;
          entry' = (case entry of PyStr s \<Rightarrow> PySeq [entry] | _ \<Rightarrow> entry)
      in case extend_loop ignore_cols entry' [] of
           Inl e \<Rightarrow> Inl e
         | Inr extend_cols \<Rightarrow> Inr (dcols @ extend_cols))"

section \<open>Batch transfer: \<^verbatim>\<open>_copy_table1_to_engine2\<close>\<close>

text \<open>
  \<^verbatim>\<open>Result.partitions()\<close> of SQLAlchemy with \<^verbatim>\<open>yield_per=n\<close>: it fetches up to
  \<open>n\<close> rows at a time and yields each non-empty batch, until a fetch comes back
  empty.
\<close>

function partitions :: "nat \<Rightarrow> 'a list \<Rightarrow> 'a list list" where
  "partitions n xs = (if n = 0 \<or> xs = [] then [] else take n xs # partitions n (drop n xs))"
  by pat_completeness auto
termination
  by (relation "measure (\<lambda>(n, xs). length xs)") auto

declare partitions.simps [simp del]

text \<open>
  The body of \<^verbatim>\<open>for partition in ...\<close> (\<open>part\<close> is the partition): one batch insert through \<^verbatim>\<open>conn2\<close>, the
  running total, one progress line. The progress line divides by \<^verbatim>\<open>row_count\<close>.
  The result is the value of \<^verbatim>\<open>rows_inserted\<close> when the loop ends.
\<close>

fun copy_loop :: "bucket \<Rightarrow> int \<Rightarrow> row list list \<Rightarrow> int \<Rightarrow> event list \<times> (error + int)" where
  "copy_loop b row_count [] rows_inserted = ([], Inr rows_inserted)"
| "copy_loop b row_count (part # ps) rows_inserted =
     (case table1_in_engine2 b of
        None \<Rightarrow> ([], Inl AttributeError)
      | Some st \<Rightarrow>
          (let ins = Execute2 (Insert st) part;
               rows_inserted' = rows_inserted + int (length part)
           in case py_truediv rows_inserted' row_count of
                Inl e \<Rightarrow> ([ins], Inl e)
              | Inr q \<Rightarrow>
                  (let (evs, r) = copy_loop b row_count ps rows_inserted'
                   in (ins # Print (Progress rows_inserted' row_count q) # evs, r))))"

text \<open>
  The function with its local constant \<open>n\<close> (the batch size) as a parameter, and
  the function as the source has it, with \<^verbatim>\<open>n = 15000\<close>.
\<close>

definition copy_table1_to_engine2_n ::
  "nat \<Rightarrow> bucket \<Rightarrow> conn \<Rightarrow> event list \<times> (error + int)" where
  "copy_table1_to_engine2_n n b conn1 =
     (let row_count = scalar_result conn1 (SelectCount (table1 b));
          rows = result_rows conn1 (SelectTable (table1 b));
          (evs, r) = copy_loop b row_count (partitions n rows) 0
      in ([Print Banner, Print (Transferring (t1name b) (host1 b) (host2 b)),
           Execute1 (SelectCount (table1 b)), Execute1 (SelectTable (table1 b))]
          @ evs @ (case r of Inl e \<Rightarrow> [] | Inr k \<Rightarrow> [Print Blank]), r))"

definition copy_table1_to_engine2 :: "bucket \<Rightarrow> conn \<Rightarrow> event list \<times> (error + int)" where
  "copy_table1_to_engine2 = copy_table1_to_engine2_n 15000"

section \<open>Comparison: \<^verbatim>\<open>_compare_tables\<close>\<close>

text \<open>The local variables of \<^verbatim>\<open>_compare_tables\<close> once the four queries have run.\<close>

record compare_locals =
  stmt_appear :: stmt
  table1_in_engine2_nrows :: int
  rowcount_appear :: int
  appear :: "row list"
  stmt_disappear :: stmt
  table2_nrows :: int
  rowcount_disappear :: int
  disappear :: "row list"

definition compare_queries :: "bucket \<Rightarrow> sa_table \<Rightarrow> conn \<Rightarrow> compare_locals" where
  "compare_queries b st conn2 =
     (let table_2_cols = filter (\<lambda>col. col_name col \<notin> set (drop_cols b)) (t_cols (table2 b));
          sa = Except (SelectColumns table_2_cols) (SelectTable st);
          sd = Except (SelectTable st) (SelectColumns table_2_cols)
      in \<lparr>stmt_appear = sa,
          table1_in_engine2_nrows = scalar_result conn2 (SelectCount st),
          rowcount_appear = result_rowcount conn2 sa,
          appear = take 5 (result_rows conn2 sa),
          stmt_disappear = sd,
          table2_nrows = scalar_result conn2 (SelectCount (table2 b)),
          rowcount_disappear = result_rowcount conn2 sd,
          disappear = take 5 (result_rows conn2 sd)\<rparr>)"

text \<open>The sample rows are printed only when the driver reports a positive rowcount.\<close>

definition sample_lines :: "int \<Rightarrow> row list \<Rightarrow> event list" where
  "sample_lines rc rs = (if rc > 0 then map (\<lambda>r. Print (RowLine r)) rs else [])"

definition compare_tables :: "bucket \<Rightarrow> conn \<Rightarrow> event list \<times> (error + unit)" where
  "compare_tables b conn2 =
     (case table1_in_engine2 b of
        None \<Rightarrow> ([], Inl AttributeError)
      | Some st \<Rightarrow>
          (let L = compare_queries b st conn2;
               queries = [Execute2 (SelectCount st) [], Execute2 (stmt_appear L) [],
                          Execute2 (SelectCount (table2 b)) [], Execute2 (stmt_disappear L) []]
           in case py_truediv (rowcount_appear L) (max (table2_nrows L) 1) of
                Inl e \<Rightarrow> (queries, Inl e)
              | Inr qa \<Rightarrow>
                  (let shown_a =
                         Print (AppearLine (t2name b) (max (rowcount_appear L) 0) (host2 b)
                                  (max qa 0) (table2_nrows L))
                         # sample_lines (rowcount_appear L) (appear L) @ [Print Blank]
                   in case py_truediv (rowcount_disappear L)
                             (max (table1_in_engine2_nrows L) 1) of
                        Inl e \<Rightarrow> (queries @ shown_a, Inl e)
                      | Inr qd \<Rightarrow>
                          (queries @ shown_a
                           @ Print (DisappearLine (t1name b) (max (rowcount_disappear L) 0)
                                      (host1 b) (max qd 0) (table1_in_engine2_nrows L))
                             # sample_lines (rowcount_disappear L) (disappear L),
                           Inr ()))))"

section \<open>The driver: \<^verbatim>\<open>recorddiff\<close>\<close>

text \<open>
  The pattern \<^verbatim>\<open>^(?:(?P<schema>\w+)\.)?(?P<table>\w+)$\<close> under \<^verbatim>\<open>re.match\<close>: one
  word, or two words with a dot between them; \<^verbatim>\<open>$\<close> also matches just before a
  newline that ends the string. The result is the pair of the groups
  \<^verbatim>\<open>schema\<close> and \<^verbatim>\<open>table\<close>, or \<open>None\<close> when the pattern does not match.
\<close>

definition is_word_char :: "char \<Rightarrow> bool" where
  "is_word_char c =
     (let n = (of_char c :: nat)
      in (48 \<le> n \<and> n \<le> 57) \<or> (65 \<le> n \<and> n \<le> 90) \<or> n = 95 \<or> (97 \<le> n \<and> n \<le> 122))"

definition is_word :: "string \<Rightarrow> bool" where
  "is_word s = (s \<noteq> [] \<and> list_all is_word_char s)"

definition match_name :: "string \<Rightarrow> (string option \<times> string) option" where
  "match_name s =
     (let s' = (if s \<noteq> [] \<and> last s = CHR 0x0A then butlast s else s);
          a = takeWhile (\<lambda>c. c \<noteq> CHR ''.'') s';
          r = dropWhile (\<lambda>c. c \<noteq> CHR ''.'') s'
      in if r = [] then (if is_word a then Some (None, a) else None)
         else if is_word a \<and> is_word (tl r) then Some (Some a, tl r) else None)"

text \<open>
  \<^verbatim>\<open>re.match(pattern, x)\<close> raises \<^verbatim>\<open>TypeError\<close> when \<open>x\<close> is not a string, and
  subscripting the \<^verbatim>\<open>None\<close> of a failed match raises \<^verbatim>\<open>TypeError\<close> too.
\<close>

fun extract_name :: "pyval \<Rightarrow> error + (string \<times> string option \<times> string)" where
  "extract_name (PyStr s) =
     (case match_name s of None \<Rightarrow> Inl TypeError | Some (sch, tbl) \<Rightarrow> Inr (s, sch, tbl))"
| "extract_name v = Inl TypeError"

text \<open>
  The outside world of one run: the two engines, what reflection finds in each
  catalogue (\<open>None\<close>: \<^verbatim>\<open>NoSuchTableError\<close>), and how the connections opened by the
  \<open>k\<close>-th \<^verbatim>\<open>engine1.begin()\<close> and \<^verbatim>\<open>engine2.begin()\<close> answer.
\<close>

record world =
  w_engine1 :: engine
  w_engine2 :: engine
  w_reflect1 :: "string option \<Rightarrow> string \<Rightarrow> column list option"
  w_reflect2 :: "string option \<Rightarrow> string \<Rightarrow> column list option"
  w_begin1 :: "nat \<Rightarrow> conn"
  w_begin2 :: "nat \<Rightarrow> conn"

text \<open>Lines 134 to 141: the two names of an entry.\<close>

fun entry_names :: "pyval \<Rightarrow> error + (pyval \<times> pyval)" where
  "entry_names (PyStr s) = Inr (PyStr s, PyStr s)"
| "entry_names (PySeq xs) =
     (if length xs = 2 then Inr (xs ! 0, xs ! 1) else Inl AssertionError)"
| "entry_names (PyOther v) = Inl TypeError"

text \<open>Lines 144 to 152 and 153 to 161: the two \<^verbatim>\<open>try\<close> blocks.\<close>

definition reflect_table1 :: "world \<Rightarrow> pyval \<Rightarrow> event list \<times> (error + string \<times> sa_table)" where
  "reflect_table1 w nm =
     (case extract_name nm of
        Inl e \<Rightarrow> ([], Inl e)
      | Inr (s, sch, tbl) \<Rightarrow>
          (case w_reflect1 w sch tbl of
             None \<Rightarrow> ([Reflect1 sch tbl, Print (NotFound1 s)], Inl NoSuchTableError)
           | Some cols \<Rightarrow> ([Reflect1 sch tbl], Inr (s, sa_Table tbl sch cols []))))"

definition reflect_table2 :: "world \<Rightarrow> pyval \<Rightarrow> event list \<times> (error + string \<times> sa_table)" where
  "reflect_table2 w nm =
     (case extract_name nm of
        Inl e \<Rightarrow> ([], Inl e)
      | Inr (s, sch, tbl) \<Rightarrow>
          (case w_reflect2 w sch tbl of
             None \<Rightarrow> ([Reflect2 sch tbl, Print (NotFound2 s)], Inl NoSuchTableError)
           | Some cols \<Rightarrow> ([Reflect2 sch tbl], Inr (s, sa_Table tbl sch cols []))))"

text \<open>
  Lines 170 to 172: the \<^verbatim>\<open>with\<close> block. Both transactions are committed when the
  block ends, the inner one first, and rolled back when an exception leaves it.
\<close>

definition run_pair :: "world \<Rightarrow> nat \<Rightarrow> bucket \<Rightarrow> event list \<times> (error + unit)" where
  "run_pair w k b =
     (let conn1 = w_begin1 w k; conn2 = w_begin2 w k;
          (evs_copy, r_copy) = copy_table1_to_engine2 b conn1
      in case r_copy of
           Inl e \<Rightarrow> ([Begin1, Begin2] @ evs_copy @ [Rollback2, Rollback1], Inl e)
         | Inr n \<Rightarrow>
             (let (evs_cmp, r_cmp) = compare_tables b conn2
              in case r_cmp of
                   Inl e \<Rightarrow>
                     ([Begin1, Begin2] @ evs_copy @ evs_cmp @ [Rollback2, Rollback1], Inl e)
                 | Inr u \<Rightarrow>
                     ([Begin1, Begin2] @ evs_copy @ evs_cmp @ [Commit2, Commit1], Inr ())))"

text \<open>
  One turn of the loop \<^verbatim>\<open>for entry in tables\<close>. The lap timer only prints
  elapsed times and is left out. The two assertions on \<^verbatim>\<open>ignore_all\<close> and
  \<^verbatim>\<open>ignore_cols\<close> hold by the types of the model. Assertions are taken to be
  enabled, as Python has them unless it is started with \<^verbatim>\<open>-O\<close>.
\<close>

definition process_entry ::
  "world \<Rightarrow> string list \<Rightarrow> ignore_dict \<Rightarrow> nat \<Rightarrow> pyval \<Rightarrow> event list \<times> (error + unit)" where
  "process_entry w ignore_all ignore_cols k entry =
     (case entry_names entry of
        Inl e \<Rightarrow> ([], Inl e)
      | Inr (n1, n2) \<Rightarrow>
          (case reflect_table1 w n1 of
             (evs1, Inl e) \<Rightarrow> (evs1, Inl e)
           | (evs1, Inr (name1, tab1)) \<Rightarrow>
               (case reflect_table2 w n2 of
                  (evs2, Inl e) \<Rightarrow> (evs1 @ evs2, Inl e)
                | (evs2, Inr (name2, tab2)) \<Rightarrow>
                    (case create_drop_cols ignore_all ignore_cols entry of
                       Inl e \<Rightarrow> (evs1 @ evs2, Inl e)
                     | Inr dcols \<Rightarrow>
                         (let b = \<lparr>t1name = name1, t2name = name2,
                                   host1 = eng_host (w_engine1 w), host2 = eng_host (w_engine2 w),
                                   engine1 = w_engine1 w, engine2 = w_engine2 w,
                                   table1 = tab1, table2 = tab2,
                                   table1_in_engine2 = None, drop_cols = dcols\<rparr>;
                              (evs_create, st) = create_table1_in_engine2 b;
                              b' = b\<lparr>table1_in_engine2 := Some st\<rparr>;
                              (evs_run, r) = run_pair w k b'
                          in (evs1 @ evs2 @ evs_create @ evs_run, r))))))"

fun recorddiff_loop ::
  "world \<Rightarrow> string list \<Rightarrow> ignore_dict \<Rightarrow> nat \<Rightarrow> pyval list \<Rightarrow> event list \<times> (error + unit)" where
  "recorddiff_loop w ignore_all ignore_cols k [] = ([], Inr ())"
| "recorddiff_loop w ignore_all ignore_cols k (entry # entries) =
     (case process_entry w ignore_all ignore_cols k entry of
        (evs, Inl e) \<Rightarrow> (evs, Inl e)
      | (evs, Inr u) \<Rightarrow>
          (let (evs', r) = recorddiff_loop w ignore_all ignore_cols (Suc k) entries
           in (evs @ evs', r)))"

definition recorddiff ::
  "world \<Rightarrow> pyval list \<Rightarrow> string list \<Rightarrow> ignore_dict \<Rightarrow> event list \<times> (error + unit)" where
  "recorddiff w tables ignore_all ignore_cols =
     (if eng_name (w_engine2 w) = ''oracle'' then ([], Inl NotImplementedError)
      else recorddiff_loop w ignore_all ignore_cols 0 tables)"

section \<open>Observing a run\<close>

text \<open>The statements executed through \<^verbatim>\<open>conn2\<close>, in order.\<close>

fun executed2 :: "event list \<Rightarrow> stmt list" where
  "executed2 [] = []"
| "executed2 (Execute2 s ps # evs) = s # executed2 evs"
| "executed2 (e # evs) = executed2 evs"

text \<open>The batches handed to \<^verbatim>\<open>conn2.execute(sa.insert(...), partition)\<close>, in order.\<close>

fun inserted :: "event list \<Rightarrow> row list list" where
  "inserted [] = []"
| "inserted (Execute2 (Insert t) ps # evs) = ps # inserted evs"
| "inserted (e # evs) = inserted evs"

text \<open>The tables created through the target engine, in order.\<close>

fun created :: "event list \<Rightarrow> sa_table list" where
  "created [] = []"
| "created (CreateTable t # evs) = t # created evs"
| "created (e # evs) = created evs"

fun printed :: "event list \<Rightarrow> out_line list" where
  "printed [] = []"
| "printed (Print l # evs) = l # printed evs"
| "printed (e # evs) = printed evs"

fun is_except :: "stmt \<Rightarrow> bool" where
  "is_except (Except a b) = True"
| "is_except s = False"

fun is_summary :: "out_line \<Rightarrow> bool" where
  "is_summary (AppearLine nm n h p m) = True"
| "is_summary (DisappearLine nm n h p m) = True"
| "is_summary l = False"

fun is_sample :: "out_line \<Rightarrow> bool" where
  "is_sample (RowLine r) = True"
| "is_sample l = False"

fun is_progress :: "out_line \<Rightarrow> bool" where
  "is_progress (Progress a b q) = True"
| "is_progress l = False"

text \<open>The count and the percentage a summary line shows.\<close>

fun shown_count :: "out_line \<Rightarrow> int" where
  "shown_count (AppearLine nm n h p m) = n"
| "shown_count (DisappearLine nm n h p m) = n"
| "shown_count l = 0"

fun shown_pct :: "out_line \<Rightarrow> rat" where
  "shown_pct (AppearLine nm n h p m) = p"
| "shown_pct (DisappearLine nm n h p m) = p"
| "shown_pct l = 0"

section \<open>Notions of the specification\<close>

text \<open>What the staging definition takes from a column: its name and its type.\<close>

definition name_type :: "column \<Rightarrow> string \<times> sa_type" where
  "name_type c = (col_name c, col_type c)"

text \<open>
  The two queries as the specification words them: the projection of the target
  table is its columns minus the excluded ones; \<open>appeared\<close> is that projection
  \<^verbatim>\<open>EXCEPT\<close> all staging columns, \<open>disappeared\<close> the reverse.
\<close>

definition target_projection :: "bucket \<Rightarrow> column list" where
  "target_projection b = filter (\<lambda>col. col_name col \<notin> set (drop_cols b)) (t_cols (table2 b))"

definition appeared_query :: "bucket \<Rightarrow> sa_table \<Rightarrow> stmt" where
  "appeared_query b st = Except (SelectColumns (target_projection b)) (SelectTable st)"

definition disappeared_query :: "bucket \<Rightarrow> sa_table \<Rightarrow> stmt" where
  "disappeared_query b st = Except (SelectTable st) (SelectColumns (target_projection b))"

text \<open>
  The exclusion set as the specification words it: the lower-cased global entries,
  joined with the entries of every per-table item whose key is one of the names of
  the table spec, a value being one name or a collection of names.
\<close>

fun val_cols :: "ignore_val \<Rightarrow> string list" where
  "val_cols (OneCol c) = [c]"
| "val_cols (ManyCols vs) = vs"

definition spec_exclusions :: "string list \<Rightarrow> ignore_dict \<Rightarrow> string set \<Rightarrow> string set" where
  "spec_exclusions ignore_all ignore_cols names =
     str_lower ` set ignore_all
     \<union> (\<Union>(k, v) \<in> set ignore_cols. if k \<in> names then set (val_cols v) else {})"

text \<open>The invariant the specification gives the exclusion list: no duplicates, every entry in lower case.\<close>

definition exclusions_normalised :: "string list \<Rightarrow> bool" where
  "exclusions_normalised l = (distinct l \<and> list_all (\<lambda>c. str_lower c = c) l)"

text \<open>
  Two disciplines for the target side of a run, each an automaton over the events.
  In the first, the one the specification describes, the staging table is created
  inside the transaction that loads and compares. In the second the table is created
  first, outside any transaction of the run, and exactly one transaction follows, in
  which every statement on \<^verbatim>\<open>conn2\<close> is executed. A run follows a discipline when
  the automaton accepts its events and ends idle.
\<close>

datatype txn_state = Idle | Created | Open2

fun txn_step_spec :: "txn_state \<Rightarrow> event \<Rightarrow> txn_state option" where
  "txn_step_spec Idle Begin2 = Some Open2"
| "txn_step_spec s Begin2 = None"
| "txn_step_spec Open2 (CreateTable t) = Some Open2"
| "txn_step_spec s (CreateTable t) = None"
| "txn_step_spec Open2 (Execute2 q ps) = Some Open2"
| "txn_step_spec s (Execute2 q ps) = None"
| "txn_step_spec Open2 Commit2 = Some Idle"
| "txn_step_spec s Commit2 = None"
| "txn_step_spec Open2 Rollback2 = Some Idle"
| "txn_step_spec s Rollback2 = None"
| "txn_step_spec s e = Some s"

fun txn_step_code :: "txn_state \<Rightarrow> event \<Rightarrow> txn_state option" where
  "txn_step_code Idle (CreateTable t) = Some Created"
| "txn_step_code s (CreateTable t) = None"
| "txn_step_code Created Begin2 = Some Open2"
| "txn_step_code s Begin2 = None"
| "txn_step_code Open2 (Execute2 q ps) = Some Open2"
| "txn_step_code s (Execute2 q ps) = None"
| "txn_step_code Open2 Commit2 = Some Idle"
| "txn_step_code s Commit2 = None"
| "txn_step_code Open2 Rollback2 = Some Idle"
| "txn_step_code s Rollback2 = None"
| "txn_step_code s e = Some s"

fun run_txn ::
  "(txn_state \<Rightarrow> event \<Rightarrow> txn_state option) \<Rightarrow> txn_state \<Rightarrow> event list \<Rightarrow> txn_state option" where
  "run_txn step s [] = Some s"
| "run_txn step s (e # es) =
     (case step s e of None \<Rightarrow> None | Some s' \<Rightarrow> run_txn step s' es)"

text \<open>
  Table specs: a name or a pair of names is well formed. An entry is rejected at once
  when it is neither a string nor a sequence of two members, or when it is a sequence
  of two members whose first is not a string; \<open>early_error\<close> is the exception raised
  then.
\<close>

fun is_str :: "pyval \<Rightarrow> bool" where
  "is_str (PyStr s) = True"
| "is_str v = False"

fun name_or_pair :: "pyval \<Rightarrow> bool" where
  "name_or_pair (PyStr s) = True"
| "name_or_pair (PySeq [a, b]) = (is_str a \<and> is_str b)"
| "name_or_pair v = False"

fun rejected_early :: "pyval \<Rightarrow> bool" where
  "rejected_early (PyStr s) = False"
| "rejected_early (PyOther v) = True"
| "rejected_early (PySeq xs) = (length xs \<noteq> 2 \<or> \<not> is_str (xs ! 0))"

fun early_error :: "pyval \<Rightarrow> error" where
  "early_error (PySeq xs) = (if length xs \<noteq> 2 then AssertionError else TypeError)"
| "early_error v = TypeError"

section \<open>Concrete inputs\<close>

text \<open>
  A source table \<^verbatim>\<open>legacy_orders\<close> and a target table \<^verbatim>\<open>orders_v2\<close> whose columns
  differ, the rows of the scenario of the specification, and connections that answer
  as a database holding them would.
\<close>

definition mk_col :: "string \<Rightarrow> sa_type \<Rightarrow> bool \<Rightarrow> column" where
  "mk_col n ty pk =
     \<lparr>col_name = n, col_type = ty, col_primary_key = pk, col_nullable = (\<not> pk),
      col_table = None\<rparr>"

definition legacy_cols :: "column list" where
  "legacy_cols = [mk_col ''order_no'' SA_Integer True, mk_col ''total'' SA_Numeric False,
                  mk_col ''memo'' (SA_String 40) False]"

definition orders_v2_cols :: "column list" where
  "orders_v2_cols = [mk_col ''id'' SA_Integer True, mk_col ''amount'' SA_Numeric False,
                     mk_col ''note'' SA_Text False]"

definition mixed_case_cols :: "column list" where
  "mixed_case_cols = [mk_col ''id'' SA_Integer True, mk_col ''Note'' SA_Text False]"

definition row_a :: row where
  "row_a = [(''id'', IntV 1), (''amount'', IntV 10), (''note'', StrV ''a'')]"

definition row_b :: row where
  "row_b = [(''id'', IntV 2), (''amount'', IntV 20), (''note'', StrV ''b'')]"

definition row_c :: row where
  "row_c = [(''id'', IntV 3), (''amount'', IntV 30), (''note'', StrV ''c'')]"

definition source_conn :: conn where
  "source_conn =
     \<lparr>scalar_result = (\<lambda>s. 2), result_rowcount = (\<lambda>s. - 1),
      result_rows = (\<lambda>s. [row_a, row_b])\<rparr>"

definition target_conn :: conn where
  "target_conn =
     \<lparr>scalar_result = (\<lambda>s. 2),
      result_rowcount = (\<lambda>s. if is_except s then 1 else - 1),
      result_rows = (\<lambda>s. case s of
                          Except (SelectColumns cs) r \<Rightarrow> [row_c]
                        | Except (SelectTable t) r \<Rightarrow> [row_b]
                        | _ \<Rightarrow> [])\<rparr>"

text \<open>An empty table, seen through a driver that counts rows and one that does not.\<close>

definition empty_conn :: conn where
  "empty_conn =
     \<lparr>scalar_result = (\<lambda>s. 0), result_rowcount = (\<lambda>s. 0), result_rows = (\<lambda>s. [])\<rparr>"

definition uncounted_conn :: conn where
  "uncounted_conn =
     \<lparr>scalar_result = (\<lambda>s. 0), result_rowcount = (\<lambda>s. - 1), result_rows = (\<lambda>s. [])\<rparr>"

text \<open>A source whose count was 0 when a row arrived before the streaming read.\<close>

definition late_row_conn :: conn where
  "late_row_conn =
     \<lparr>scalar_result = (\<lambda>s. 0), result_rowcount = (\<lambda>s. - 1), result_rows = (\<lambda>s. [row_a])\<rparr>"

definition old_engine :: engine where
  "old_engine = \<lparr>eng_name = ''oracle'', eng_host = ''old-db''\<rparr>"

definition new_engine :: engine where
  "new_engine = \<lparr>eng_name = ''postgresql'', eng_host = ''new-db''\<rparr>"

definition legacy_table :: sa_table where
  "legacy_table = sa_Table ''legacy_orders'' None legacy_cols []"

definition orders_v2_table :: sa_table where
  "orders_v2_table = sa_Table ''orders_v2'' None orders_v2_cols []"

definition mixed_case_table :: sa_table where
  "mixed_case_table = sa_Table ''orders'' None mixed_case_cols []"

definition bucket0 :: "sa_table \<Rightarrow> string list \<Rightarrow> bucket" where
  "bucket0 target dc =
     \<lparr>t1name = ''legacy_orders'', t2name = t_name target,
      host1 = ''old-db'', host2 = ''new-db'',
      engine1 = old_engine, engine2 = new_engine,
      table1 = legacy_table, table2 = target,
      table1_in_engine2 = None, drop_cols = dc\<rparr>"

text \<open>The bucket as \<^verbatim>\<open>recorddiff\<close> has it once the staging table is assigned.\<close>

definition staged :: "bucket \<Rightarrow> bucket" where
  "staged b = b\<lparr>table1_in_engine2 := Some (snd (create_table1_in_engine2 b))\<rparr>"

definition example_world :: world where
  "example_world =
     \<lparr>w_engine1 = old_engine, w_engine2 = new_engine,
      w_reflect1 = (\<lambda>sch t. if sch = None \<and> t = ''legacy_orders'' then Some legacy_cols
                             else if sch = None \<and> t = ''orders'' then Some orders_v2_cols
                             else None),
      w_reflect2 = (\<lambda>sch t. if sch = None \<and> t = ''orders_v2'' then Some orders_v2_cols
                             else if sch = None \<and> t = ''orders'' then Some orders_v2_cols
                             else None),
      w_begin1 = (\<lambda>k. source_conn),
      w_begin2 = (\<lambda>k. target_conn)\<rparr>"

text \<open>A target catalogue whose table \<^verbatim>\<open>orders\<close> has a column with a capital letter.\<close>

definition mixed_case_world :: world where
  "mixed_case_world =
     example_world
       \<lparr>w_reflect2 := (\<lambda>sch t. if sch = None \<and> t = ''orders'' then Some mixed_case_cols
                                else None)\<rparr>"

text \<open>The bucket of the pair \<^verbatim>\<open>('legacy_orders', 'orders_v2')\<close> with \<^verbatim>\<open>note\<close> ignored.\<close>

definition example_bucket :: bucket where
  "example_bucket = staged (bucket0 orders_v2_table [''note''])"

definition example_staging :: sa_table where
  "example_staging = snd (create_table1_in_engine2 (bucket0 orders_v2_table [''note'']))"


section \<open>Staging table\<close>

lemma staging_cols_loop_eq:
  "staging_cols_loop dc cols l =
     l @ map (\<lambda>c. sa_Column (col_name c) (col_type c)) (filter (\<lambda>c. col_name c \<notin> set dc) cols)"
  by (induction cols arbitrary: l) simp_all

lemma staging_name_types:
  "map name_type (t_cols (snd (create_table1_in_engine2 b))) =
     filter (\<lambda>p. fst p \<notin> set (drop_cols b)) (map name_type (t_cols (table2 b)))"
  by (simp add: create_table1_in_engine2_def sa_Table_def Let_def staging_cols_loop_eq
      filter_map o_def name_type_def sa_Column_def)

lemma staging_col_names:
  "map col_name (t_cols (snd (create_table1_in_engine2 b))) =
     filter (\<lambda>n. n \<notin> set (drop_cols b)) (map col_name (t_cols (table2 b)))"
  by (simp add: create_table1_in_engine2_def sa_Table_def Let_def staging_cols_loop_eq
      filter_map o_def sa_Column_def)

text \<open>
  Claim C2: for every table pair, the columns of the staging table are exactly the
  columns of the reflected target table whose names are not in the exclusion list, in
  the order of the target schema and with its types; the schema of the source table
  contributes no column (replacing the source table leaves the column list as it is).
\<close>

theorem staging_columns_from_target:
  "map name_type (t_cols (snd (create_table1_in_engine2 b))) =
     filter (\<lambda>p. fst p \<notin> set (drop_cols b)) (map name_type (t_cols (table2 b)))
   \<and> map name_type (t_cols (snd (create_table1_in_engine2 (b\<lparr>table1 := t\<rparr>)))) =
     map name_type (t_cols (snd (create_table1_in_engine2 b)))"
  by (simp add: staging_name_types)

text \<open>
  The pair \<^verbatim>\<open>('legacy_orders', 'orders_v2')\<close> with \<^verbatim>\<open>note\<close> ignored: the staging
  table has the columns \<^verbatim>\<open>id\<close> and \<^verbatim>\<open>amount\<close> of \<^verbatim>\<open>orders_v2\<close>, none of
  \<^verbatim>\<open>legacy_orders\<close>.
\<close>

theorem staging_columns_from_target_witness:
  "map name_type (t_cols (snd (create_table1_in_engine2 (bucket0 orders_v2_table [''note''])))) =
     [(''id'', SA_Integer), (''amount'', SA_Numeric)]"
proof -
  have "map name_type (t_cols (snd (create_table1_in_engine2 (bucket0 orders_v2_table [''note''])))) =
      filter (\<lambda>p. fst p \<notin> set (drop_cols (bucket0 orders_v2_table [''note''])))
        (map name_type (t_cols (table2 (bucket0 orders_v2_table [''note'']))))"
    by (rule staging_columns_from_target [of "bucket0 orders_v2_table [''note'']" legacy_table,
          THEN conjunct1])
  also have "\<dots> = [(''id'', SA_Integer), (''amount'', SA_Numeric)]"
    by code_simp
  finally show ?thesis .
qed

section \<open>Columns to ignore\<close>

lemma extend_for_item_eq:
  "extend_for_item k v tbls acc =
     acc @ concat (map (\<lambda>t. if PyStr k = t then val_cols v else []) tbls)"
  by (induction tbls arbitrary: acc) (auto split: ignore_val.splits)

lemma extend_loop_eq:
  "extend_loop items (PySeq tbls) acc =
     Inr (acc @ concat (map (\<lambda>(k, v). concat (map (\<lambda>t. if PyStr k = t then val_cols v else []) tbls)) items))"
  by (induction items arbitrary: acc) (auto simp: extend_for_item_eq)

lemma create_drop_cols_seq:
  "create_drop_cols ia ic (PySeq tbls) =
     Inr (map str_lower ia
          @ concat (map (\<lambda>(k, v). concat (map (\<lambda>t. if PyStr k = t then val_cols v else []) tbls)) ic))"
  by (simp add: create_drop_cols_def extend_loop_eq)

lemma create_drop_cols_str:
  "create_drop_cols ia ic (PyStr s) =
     Inr (map str_lower ia
          @ concat (map (\<lambda>(k, v). concat (map (\<lambda>t. if PyStr k = t then val_cols v else []) [PyStr s])) ic))"
  by (simp add: create_drop_cols_def extend_loop_eq)

lemma set_matching_items:
  "set (concat (map (\<lambda>(k, v). concat (map (\<lambda>t. if PyStr k = t then val_cols v else []) (map PyStr ns))) ic))
   = (\<Union>(k, v) \<in> set ic. if k \<in> set ns then set (val_cols v) else {})"
  by (induction ic) (auto split: if_splits)

text \<open>
  Claim C3, as the code has it: for every global ignore list, per-table ignore
  mapping and table spec (one name or a pair of names), the function returns a list
  whose set of members is the union of the lower-cased global entries and the entries
  of every per-table item whose key equals one of the names of the spec. (The list
  itself may repeat a name, and per-table entries are taken as they are written.)
\<close>

theorem create_drop_cols_union:
  "(case create_drop_cols ia ic (PyStr s) of
      Inl e \<Rightarrow> False
    | Inr l \<Rightarrow> set l = spec_exclusions ia ic {s})
   \<and> (case create_drop_cols ia ic (PySeq [PyStr a, PyStr c]) of
        Inl e \<Rightarrow> False
      | Inr l \<Rightarrow> set l = spec_exclusions ia ic {a, c})"
  using set_matching_items [of "[s]" ic] set_matching_items [of "[a, c]" ic]
  by (simp add: create_drop_cols_str create_drop_cols_seq spec_exclusions_def)

theorem create_drop_cols_union_witness:
  "create_drop_cols [''ID''] [(''orders'', OneCol ''Note''), (''other'', ManyCols [''x''])]
     (PyStr ''orders'') = Inr [''id'', ''Note'']
   \<and> set [''id'', ''Note''] =
       spec_exclusions [''ID''] [(''orders'', OneCol ''Note''), (''other'', ManyCols [''x''])]
         {''orders''}"
proof -
  have e: "create_drop_cols [''ID''] [(''orders'', OneCol ''Note''), (''other'', ManyCols [''x''])]
     (PyStr ''orders'') = Inr [''id'', ''Note'']"
    by code_simp
  have "case create_drop_cols [''ID''] [(''orders'', OneCol ''Note''), (''other'', ManyCols [''x''])]
          (PyStr ''orders'') of
      Inl e \<Rightarrow> False
    | Inr l \<Rightarrow> set l = spec_exclusions [''ID'']
          [(''orders'', OneCol ''Note''), (''other'', ManyCols [''x''])] {''orders''}"
    by (rule create_drop_cols_union [of "[''ID'']" _ "''orders''" "''a''" "''b''", THEN conjunct1])
  then have "set [''id'', ''Note''] = spec_exclusions [''ID'']
          [(''orders'', OneCol ''Note''), (''other'', ManyCols [''x''])] {''orders''}"
    unfolding e by simp
  with e show ?thesis by (rule conjI)
qed

text \<open>
  Claim C3 as stated fails: with \<^verbatim>\<open>ignore_all = ['id', 'ID']\<close> and
  \<^verbatim>\<open>ignore_cols = {'orders': 'Note'}\<close> the result for \<^verbatim>\<open>'orders'\<close> is the list
  \<^verbatim>\<open>['id', 'id', 'Note']\<close>, which repeats a name and keeps a capital letter.
\<close>

theorem create_drop_cols_not_normalised:
  "create_drop_cols [''id'', ''ID''] [(''orders'', OneCol ''Note'')] (PyStr ''orders'')
     = Inr [''id'', ''id'', ''Note'']
   \<and> \<not> exclusions_normalised [''id'', ''id'', ''Note'']"
  by code_simp

section \<open>Exclusion and letter case\<close>

lemma excluded_name_not_staged:
  "n \<in> set (drop_cols b) \<Longrightarrow> n \<notin> set (map col_name (t_cols (snd (create_table1_in_engine2 b))))"
  by (simp add: staging_col_names)

lemma excluded_name_not_projected:
  "n \<in> set (drop_cols b) \<Longrightarrow> n \<notin> set (map col_name (target_projection b))"
  by (auto simp: target_projection_def)

text \<open>
  Claim C4 fails on the code. \<^verbatim>\<open>_create_drop_cols\<close> lower-cases the global entries,
  and the two filters compare them with the reflected names as they are. With
  \<^verbatim>\<open>ignore_all = ['Note']\<close> and a target table \<^verbatim>\<open>orders\<close> whose reflected columns are
  \<^verbatim>\<open>id\<close> and \<^verbatim>\<open>Note\<close>, the exclusion list is \<^verbatim>\<open>['note']\<close>, the staging table is
  created with the column \<^verbatim>\<open>Note\<close>, and both \<^verbatim>\<open>EXCEPT\<close> queries project it.
\<close>

theorem mixed_case_column_not_excluded:
  "create_drop_cols [''Note''] [] (PyStr ''orders'') = Inr [''note'']
   \<and> map (\<lambda>t. map col_name (t_cols t))
       (created (fst (recorddiff mixed_case_world [PyStr ''orders''] [''Note''] [])))
     = [[''id'', ''Note'']]
   \<and> map projection
       (filter is_except
          (executed2 (fst (recorddiff mixed_case_world [PyStr ''orders''] [''Note''] []))))
     = [[''id'', ''Note''], [''id'', ''Note'']]"
  by code_simp


section \<open>Comparison\<close>

lemma executed2_append: "executed2 (xs @ ys) = executed2 xs @ executed2 ys"
  by (induction xs rule: executed2.induct) simp_all

lemma printed_append: "printed (xs @ ys) = printed xs @ printed ys"
  by (induction xs rule: printed.induct) simp_all

lemma inserted_append: "inserted (xs @ ys) = inserted xs @ inserted ys"
  by (induction xs rule: inserted.induct) simp_all

lemma executed2_row_lines: "executed2 (map (\<lambda>r. Print (RowLine r)) rs) = []"
  by (induction rs) simp_all

lemma printed_row_lines: "printed (map (\<lambda>r. Print (RowLine r)) rs) = map RowLine rs"
  by (induction rs) simp_all

lemma executed2_sample_lines: "executed2 (sample_lines rc rs) = []"
  by (simp add: sample_lines_def executed2_row_lines)

lemma printed_sample_lines:
  "printed (sample_lines rc rs) = (if rc > 0 then map RowLine rs else [])"
  by (simp add: sample_lines_def printed_row_lines)

lemma filter_summary_row_lines: "filter is_summary (map RowLine rs) = []"
  by (induction rs) simp_all

lemma filter_sample_row_lines: "filter is_sample (map RowLine rs) = map RowLine rs"
  by (induction rs) simp_all

lemma py_truediv_max: "py_truediv a (max n 1) = Inr (of_int a / of_int (max n 1))"
  by (simp add: py_truediv_def)

lemma compare_queries_stmts:
  "stmt_appear (compare_queries b st c) = appeared_query b st"
  "stmt_disappear (compare_queries b st c) = disappeared_query b st"
  by (simp_all add: compare_queries_def appeared_query_def disappeared_query_def
      target_projection_def Let_def)

lemma compare_queries_fields:
  "table2_nrows (compare_queries b st c) = scalar_result c (SelectCount (table2 b))"
  "table1_in_engine2_nrows (compare_queries b st c) = scalar_result c (SelectCount st)"
  "rowcount_appear (compare_queries b st c) = result_rowcount c (appeared_query b st)"
  "rowcount_disappear (compare_queries b st c) = result_rowcount c (disappeared_query b st)"
  "appear (compare_queries b st c) = take 5 (result_rows c (appeared_query b st))"
  "disappear (compare_queries b st c) = take 5 (result_rows c (disappeared_query b st))"
  by (simp_all add: compare_queries_def appeared_query_def disappeared_query_def
      target_projection_def Let_def)

lemma compare_tables_result:
  assumes "table1_in_engine2 b = Some st"
  shows "snd (compare_tables b c) = Inr ()"
  using assms by (simp add: compare_tables_def Let_def py_truediv_max)

lemma compare_tables_executed:
  assumes "table1_in_engine2 b = Some st"
  shows "executed2 (fst (compare_tables b c)) =
     [SelectCount st, appeared_query b st, SelectCount (table2 b), disappeared_query b st]"
  using assms
  by (simp add: compare_tables_def Let_def py_truediv_max executed2_append
      executed2_sample_lines compare_queries_stmts)

lemma compare_tables_summary:
  assumes "table1_in_engine2 b = Some st"
  shows "filter is_summary (printed (fst (compare_tables b c))) =
     [AppearLine (t2name b) (max (result_rowcount c (appeared_query b st)) 0) (host2 b)
        (max (of_int (result_rowcount c (appeared_query b st))
              / of_int (max (scalar_result c (SelectCount (table2 b))) 1)) 0)
        (scalar_result c (SelectCount (table2 b))),
      DisappearLine (t1name b) (max (result_rowcount c (disappeared_query b st)) 0) (host1 b)
        (max (of_int (result_rowcount c (disappeared_query b st))
              / of_int (max (scalar_result c (SelectCount st)) 1)) 0)
        (scalar_result c (SelectCount st))]"
  using assms
  by (simp add: compare_tables_def Let_def py_truediv_max printed_append printed_sample_lines
      compare_queries_stmts compare_queries_fields filter_summary_row_lines)

lemma compare_tables_samples:
  assumes "table1_in_engine2 b = Some st"
  shows "length (filter is_sample (printed (fst (compare_tables b c)))) \<le> 10"
  using assms
  by (auto simp: compare_tables_def Let_def py_truediv_max printed_append printed_sample_lines
      compare_queries_fields filter_sample_row_lines min_def)

lemma compare_tables_printed:
  assumes "table1_in_engine2 b = Some st"
  shows "printed (fst (compare_tables b c)) =
     AppearLine (t2name b) (max (result_rowcount c (appeared_query b st)) 0) (host2 b)
        (max (of_int (result_rowcount c (appeared_query b st))
              / of_int (max (scalar_result c (SelectCount (table2 b))) 1)) 0)
        (scalar_result c (SelectCount (table2 b)))
     # (if 0 < result_rowcount c (appeared_query b st)
        then map RowLine (take 5 (result_rows c (appeared_query b st))) else [])
     @ Blank
     # DisappearLine (t1name b) (max (result_rowcount c (disappeared_query b st)) 0) (host1 b)
        (max (of_int (result_rowcount c (disappeared_query b st))
              / of_int (max (scalar_result c (SelectCount st)) 1)) 0)
        (scalar_result c (SelectCount st))
     # (if 0 < result_rowcount c (disappeared_query b st)
        then map RowLine (take 5 (result_rows c (disappeared_query b st))) else [])"
  using assms
  by (simp add: compare_tables_def Let_def py_truediv_max printed_append printed_sample_lines
      compare_queries_stmts compare_queries_fields)

text \<open>
  Claim C1: for every bucket (with its staging table assigned) and every exclusion
  list, the comparator executes four statements through the target connection, two of
  them set differences: \<open>appeared\<close>, the projection of the target table minus the
  excluded columns \<^verbatim>\<open>EXCEPT\<close> all staging columns, and \<open>disappeared\<close>, the reverse.
  The sample rows it keeps for each direction are the first 5 rows of that
  direction's own query, so at most 5; they are printed, under the line of their
  direction, when the rowcount of that query is positive. The percentage of
  \<open>appeared\<close> is taken over the row count of the target table, that of
  \<open>disappeared\<close> over the row count of the staging table (each count raised to 1
  when it is 0).
\<close>

theorem compare_tables_two_except_queries:
  assumes "table1_in_engine2 b = Some st"
  shows "executed2 (fst (compare_tables b c)) =
           [SelectCount st, appeared_query b st, SelectCount (table2 b), disappeared_query b st]
       \<and> filter is_except (executed2 (fst (compare_tables b c))) =
           [appeared_query b st, disappeared_query b st]
       \<and> appear (compare_queries b st c) = take 5 (result_rows c (appeared_query b st))
       \<and> disappear (compare_queries b st c) = take 5 (result_rows c (disappeared_query b st))
       \<and> length (appear (compare_queries b st c)) \<le> 5
       \<and> length (disappear (compare_queries b st c)) \<le> 5
       \<and> length (filter is_sample (printed (fst (compare_tables b c)))) \<le> 10
       \<and> filter is_summary (printed (fst (compare_tables b c))) =
           [AppearLine (t2name b) (max (result_rowcount c (appeared_query b st)) 0) (host2 b)
              (max (of_int (result_rowcount c (appeared_query b st))
                    / of_int (max (scalar_result c (SelectCount (table2 b))) 1)) 0)
              (scalar_result c (SelectCount (table2 b))),
            DisappearLine (t1name b) (max (result_rowcount c (disappeared_query b st)) 0)
              (host1 b)
              (max (of_int (result_rowcount c (disappeared_query b st))
                    / of_int (max (scalar_result c (SelectCount st)) 1)) 0)
              (scalar_result c (SelectCount st))]
       \<and> printed (fst (compare_tables b c)) =
           AppearLine (t2name b) (max (result_rowcount c (appeared_query b st)) 0) (host2 b)
              (max (of_int (result_rowcount c (appeared_query b st))
                    / of_int (max (scalar_result c (SelectCount (table2 b))) 1)) 0)
              (scalar_result c (SelectCount (table2 b)))
           # (if 0 < result_rowcount c (appeared_query b st)
              then map RowLine (appear (compare_queries b st c)) else [])
           @ Blank
           # DisappearLine (t1name b) (max (result_rowcount c (disappeared_query b st)) 0)
              (host1 b)
              (max (of_int (result_rowcount c (disappeared_query b st))
                    / of_int (max (scalar_result c (SelectCount st)) 1)) 0)
              (scalar_result c (SelectCount st))
           # (if 0 < result_rowcount c (disappeared_query b st)
              then map RowLine (disappear (compare_queries b st c)) else [])"
proof -
  have ex: "executed2 (fst (compare_tables b c)) =
      [SelectCount st, appeared_query b st, SelectCount (table2 b), disappeared_query b st]"
    using assms by (rule compare_tables_executed)
  have two: "filter is_except (executed2 (fst (compare_tables b c))) =
      [appeared_query b st, disappeared_query b st]"
    unfolding ex by (simp add: appeared_query_def disappeared_query_def)
  have rows: "appear (compare_queries b st c) = take 5 (result_rows c (appeared_query b st))"
    "disappear (compare_queries b st c) = take 5 (result_rows c (disappeared_query b st))"
    by (simp_all add: compare_queries_fields)
  have five: "length (appear (compare_queries b st c)) \<le> 5"
    "length (disappear (compare_queries b st c)) \<le> 5"
    by (simp_all add: compare_queries_fields)
  note pr = compare_tables_printed [OF assms, of c, folded rows]
  show ?thesis
    using ex two rows five compare_tables_samples [OF assms] compare_tables_summary [OF assms] pr
    by blast
qed

text \<open>
  The scenario of the specification, \<^verbatim>\<open>note\<close> ignored: the row with id 3
  appeared and is shown under its line, the row with id 2 disappeared and is shown
  under the other, each one row out of 2.
\<close>

theorem compare_tables_two_except_queries_witness:
  "table1_in_engine2 example_bucket = Some example_staging
   \<and> map projection (filter is_except (executed2 (fst (compare_tables example_bucket target_conn))))
       = [[''id'', ''amount''], [''id'', ''amount'']]
   \<and> appear (compare_queries example_bucket example_staging target_conn) = [row_c]
   \<and> disappear (compare_queries example_bucket example_staging target_conn) = [row_b]
   \<and> printed (fst (compare_tables example_bucket target_conn)) =
       [AppearLine ''orders_v2'' 1 ''new-db'' (1 / 2) 2, RowLine row_c, Blank,
        DisappearLine ''legacy_orders'' 1 ''old-db'' (1 / 2) 2, RowLine row_b]"
proof -
  have h: "table1_in_engine2 example_bucket = Some example_staging"
    by (simp add: example_bucket_def example_staging_def staged_def)
  note t = compare_tables_two_except_queries [OF h, of target_conn]
  have p: "map projection [appeared_query example_bucket example_staging,
      disappeared_query example_bucket example_staging] = [[''id'', ''amount''], [''id'', ''amount'']]"
    by code_simp
  have ra: "result_rows target_conn (appeared_query example_bucket example_staging) = [row_c]"
    and rd: "result_rows target_conn (disappeared_query example_bucket example_staging) = [row_b]"
    and rc: "result_rowcount target_conn (appeared_query example_bucket example_staging) = 1"
      "result_rowcount target_conn (disappeared_query example_bucket example_staging) = 1"
    and sc: "scalar_result target_conn s = 2" for s
    by (simp_all add: target_conn_def appeared_query_def disappeared_query_def)
  have nm: "t2name example_bucket = ''orders_v2''" "host2 example_bucket = ''new-db''"
    "t1name example_bucket = ''legacy_orders''" "host1 example_bucket = ''old-db''"
    by (simp_all add: example_bucket_def staged_def bucket0_def orders_v2_table_def sa_Table_def)
  from t have e: "filter is_except (executed2 (fst (compare_tables example_bucket target_conn))) =
      [appeared_query example_bucket example_staging, disappeared_query example_bucket example_staging]"
    by blast
  from t have a: "appear (compare_queries example_bucket example_staging target_conn) = [row_c]"
    and d: "disappear (compare_queries example_bucket example_staging target_conn) = [row_b]"
    unfolding ra rd by simp_all
  from t have "printed (fst (compare_tables example_bucket target_conn)) =
       [AppearLine ''orders_v2'' 1 ''new-db'' (1 / 2) 2, RowLine row_c, Blank,
        DisappearLine ''legacy_orders'' 1 ''old-db'' (1 / 2) 2, RowLine row_b]"
    unfolding a d rc sc nm by simp
  with e a d show ?thesis using h p by simp
qed

lemma example_bucket_staged: "table1_in_engine2 example_bucket = Some example_staging"
  by (simp add: example_bucket_def example_staging_def staged_def)

text \<open>
  Claim C10: for every comparison, whatever rowcount the driver reports (also
  \<open>-1\<close>), the comparator raises nothing, so no percentage divides by zero; the count
  shown for each direction is the rowcount raised to 0, the percentage shown is the
  rowcount over the row count raised to 1, itself raised to 0; neither is negative.
\<close>

theorem compare_tables_clamps:
  assumes "table1_in_engine2 b = Some st"
  shows "snd (compare_tables b c) = Inr ()
       \<and> map shown_count (filter is_summary (printed (fst (compare_tables b c)))) =
           [max (result_rowcount c (appeared_query b st)) 0,
            max (result_rowcount c (disappeared_query b st)) 0]
       \<and> map shown_pct (filter is_summary (printed (fst (compare_tables b c)))) =
           [max (of_int (result_rowcount c (appeared_query b st))
                 / of_int (max (scalar_result c (SelectCount (table2 b))) 1)) 0,
            max (of_int (result_rowcount c (disappeared_query b st))
                 / of_int (max (scalar_result c (SelectCount st)) 1)) 0]
       \<and> list_all (\<lambda>l. 0 \<le> shown_count l \<and> 0 \<le> shown_pct l)
           (filter is_summary (printed (fst (compare_tables b c))))"
  by (simp add: compare_tables_result [OF assms] compare_tables_summary [OF assms])

text \<open>Two empty tables behind a driver that reports \<open>-1\<close> for every \<^verbatim>\<open>SELECT\<close>.\<close>

theorem compare_tables_clamps_witness:
  "table1_in_engine2 example_bucket = Some example_staging
   \<and> snd (compare_tables example_bucket uncounted_conn) = Inr ()
   \<and> map shown_count (filter is_summary (printed (fst (compare_tables example_bucket uncounted_conn))))
       = [0, 0]
   \<and> map shown_pct (filter is_summary (printed (fst (compare_tables example_bucket uncounted_conn))))
       = [0, 0]"
proof -
  note t = compare_tables_clamps [OF example_bucket_staged, of uncounted_conn]
  have rc: "result_rowcount uncounted_conn s = - 1" "scalar_result uncounted_conn s = 0" for s
    by (simp_all add: uncounted_conn_def)
  from t have "snd (compare_tables example_bucket uncounted_conn) = Inr ()" by blast
  moreover from t have "map shown_count
      (filter is_summary (printed (fst (compare_tables example_bucket uncounted_conn)))) = [0, 0]"
    unfolding rc by simp
  moreover from t have "map shown_pct
      (filter is_summary (printed (fst (compare_tables example_bucket uncounted_conn)))) = [0, 0]"
    unfolding rc by simp
  ultimately show ?thesis using example_bucket_staged by blast
qed

text \<open>
  Claim C7: for every comparison the comparator raises nothing, whatever the counts
  and the result sets are, so also when the target table, the staging table or a
  difference is empty. When the count of the target table is 0 and the driver reports
  no row for \<open>appeared\<close> (rowcount 0, or \<open>-1\<close>), the line shows 0 rows, 0 percent, of
  0 rows; likewise for \<open>disappeared\<close> and the staging table.
\<close>

theorem compare_tables_empty_tables:
  assumes "table1_in_engine2 b = Some st"
  shows "snd (compare_tables b c) = Inr ()
       \<and> (scalar_result c (SelectCount (table2 b)) = 0
            \<and> result_rowcount c (appeared_query b st) \<le> 0
          \<longrightarrow> AppearLine (t2name b) 0 (host2 b) 0 0
                \<in> set (printed (fst (compare_tables b c))))
       \<and> (scalar_result c (SelectCount st) = 0
            \<and> result_rowcount c (disappeared_query b st) \<le> 0
          \<longrightarrow> DisappearLine (t1name b) 0 (host1 b) 0 0
                \<in> set (printed (fst (compare_tables b c))))"
proof -
  let ?ls = "filter is_summary (printed (fst (compare_tables b c)))"
  have sub: "set ?ls \<subseteq> set (printed (fst (compare_tables b c)))" by auto
  have a: "AppearLine (t2name b) 0 (host2 b) 0 0 \<in> set ?ls"
    if "scalar_result c (SelectCount (table2 b)) = 0"
      and "result_rowcount c (appeared_query b st) \<le> 0"
    using that unfolding compare_tables_summary [OF assms]
    by (simp add: max_def divide_nonpos_nonneg)
  have d: "DisappearLine (t1name b) 0 (host1 b) 0 0 \<in> set ?ls"
    if "scalar_result c (SelectCount st) = 0"
      and "result_rowcount c (disappeared_query b st) \<le> 0"
    using that unfolding compare_tables_summary [OF assms]
    by (simp add: max_def divide_nonpos_nonneg)
  show ?thesis using compare_tables_result [OF assms] a d sub by blast
qed

text \<open>Two empty tables: both directions show 0 rows, 0 percent, of 0 rows.\<close>

theorem compare_tables_empty_tables_witness:
  "table1_in_engine2 example_bucket = Some example_staging
   \<and> snd (compare_tables example_bucket empty_conn) = Inr ()
   \<and> AppearLine ''orders_v2'' 0 ''new-db'' 0 0
       \<in> set (printed (fst (compare_tables example_bucket empty_conn)))
   \<and> DisappearLine ''legacy_orders'' 0 ''old-db'' 0 0
       \<in> set (printed (fst (compare_tables example_bucket empty_conn)))"
proof -
  note t = compare_tables_empty_tables [OF example_bucket_staged, of empty_conn]
  have rc: "result_rowcount empty_conn s = 0" "scalar_result empty_conn s = 0" for s
    by (simp_all add: empty_conn_def)
  have nm: "t2name example_bucket = ''orders_v2''" "host2 example_bucket = ''new-db''"
    "t1name example_bucket = ''legacy_orders''" "host1 example_bucket = ''old-db''"
    by (simp_all add: example_bucket_def staged_def bucket0_def orders_v2_table_def sa_Table_def)
  from t show ?thesis
    unfolding rc nm using example_bucket_staged by simp
qed


section \<open>Batch transfer\<close>

lemma partitions_Nil: "partitions n [] = []"
  by (simp add: partitions.simps [of n "[]"])

lemma partitions_concat: "0 < n \<Longrightarrow> concat (partitions n xs) = xs"
proof (induction n xs rule: partitions.induct)
  case (1 n xs)
  show ?case
  proof (cases "xs = []")
    case True
    then show ?thesis by (simp add: partitions_Nil)
  next
    case False
    with "1.prems" "1.IH" have "concat (partitions n (drop n xs)) = drop n xs" by simp
    with False "1.prems" show ?thesis by (simp add: partitions.simps [of n xs])
  qed
qed

lemma copy_loop_ok:
  assumes "table1_in_engine2 b = Some st" and "rc \<noteq> 0 \<or> ps = []"
  shows "snd (copy_loop b rc ps ri) = Inr (ri + int (length (concat ps)))
       \<and> inserted (fst (copy_loop b rc ps ri)) = ps"
  using assms
proof (induction ps arbitrary: ri)
  case Nil
  then show ?case by simp
next
  case (Cons p ps)
  then have rc: "rc \<noteq> 0" by auto
  then have IH: "snd (copy_loop b rc ps (ri + int (length p))) =
      Inr (ri + int (length p) + int (length (concat ps)))
    \<and> inserted (fst (copy_loop b rc ps (ri + int (length p)))) = ps"
    using Cons.IH [of "ri + int (length p)"] Cons.prems by simp
  show ?case
    using Cons.prems(1) rc IH
    by (simp add: py_truediv_def Let_def split_beta)
qed

lemma copy_n_ok:
  assumes "table1_in_engine2 b = Some st"
    and "result_rows conn1 (SelectTable (table1 b)) = []
         \<or> scalar_result conn1 (SelectCount (table1 b)) \<noteq> 0"
    and "0 < n"
  shows "snd (copy_table1_to_engine2_n n b conn1) =
           Inr (int (length (result_rows conn1 (SelectTable (table1 b)))))"
    and "concat (inserted (fst (copy_table1_to_engine2_n n b conn1))) =
           result_rows conn1 (SelectTable (table1 b))"
proof -
  let ?rows = "result_rows conn1 (SelectTable (table1 b))"
  let ?rc = "scalar_result conn1 (SelectCount (table1 b))"
  have "?rc \<noteq> 0 \<or> partitions n ?rows = []"
    using assms(2) by (auto simp: partitions_Nil)
  from copy_loop_ok [OF assms(1) this, of 0]
  have l: "snd (copy_loop b ?rc (partitions n ?rows) 0) = Inr (int (length ?rows))"
    "inserted (fst (copy_loop b ?rc (partitions n ?rows) 0)) = partitions n ?rows"
    using assms(3) by (simp_all add: partitions_concat)
  show "snd (copy_table1_to_engine2_n n b conn1) = Inr (int (length ?rows))"
    using l(1) by (simp add: copy_table1_to_engine2_n_def Let_def split_beta)
  show "concat (inserted (fst (copy_table1_to_engine2_n n b conn1))) = ?rows"
    using l assms(3)
    by (simp add: copy_table1_to_engine2_n_def Let_def split_beta inserted_append
        partitions_concat)
qed

text \<open>
  Claim C8: for a source table whose count query does not answer 0 while the table
  yields rows, and a bucket with its staging table assigned, every positive batch
  size ends with the same running total, the number of rows of the source table, and
  the batches inserted add up to exactly these rows; so batch sizes 1, 100 and 15000
  (the one the source uses) end with the same total.
\<close>

theorem batch_size_invariance:
  assumes "table1_in_engine2 b = Some st"
    and "result_rows conn1 (SelectTable (table1 b)) = []
         \<or> scalar_result conn1 (SelectCount (table1 b)) \<noteq> 0"
    and "0 < n" and "0 < m"
  shows "snd (copy_table1_to_engine2_n n b conn1) = snd (copy_table1_to_engine2_n m b conn1)
       \<and> snd (copy_table1_to_engine2_n n b conn1) =
           Inr (int (length (result_rows conn1 (SelectTable (table1 b)))))
       \<and> concat (inserted (fst (copy_table1_to_engine2_n n b conn1))) =
           result_rows conn1 (SelectTable (table1 b))
       \<and> snd (copy_table1_to_engine2_n 1 b conn1) = snd (copy_table1_to_engine2_n 100 b conn1)
       \<and> snd (copy_table1_to_engine2_n 100 b conn1) = snd (copy_table1_to_engine2 b conn1)"
proof -
  have "snd (copy_table1_to_engine2_n k b conn1) =
      Inr (int (length (result_rows conn1 (SelectTable (table1 b)))))" if "0 < k" for k
    using assms(1,2) that by (rule copy_n_ok(1))
  then show ?thesis
    using assms(3,4) copy_n_ok(2) [OF assms(1,2,3)]
    by (simp add: copy_table1_to_engine2_def)
qed

text \<open>The two rows of the scenario, sent one at a time and a hundred at a time.\<close>

theorem batch_size_invariance_witness:
  "table1_in_engine2 example_bucket = Some example_staging
   \<and> scalar_result source_conn (SelectCount (table1 example_bucket)) \<noteq> 0
   \<and> (0::nat) < 1 \<and> (0::nat) < 100
   \<and> snd (copy_table1_to_engine2_n 1 example_bucket source_conn) =
       snd (copy_table1_to_engine2_n 100 example_bucket source_conn)
   \<and> snd (copy_table1_to_engine2_n 1 example_bucket source_conn) = Inr 2
   \<and> inserted (fst (copy_table1_to_engine2_n 1 example_bucket source_conn)) = [[row_a], [row_b]]
   \<and> inserted (fst (copy_table1_to_engine2_n 100 example_bucket source_conn)) = [[row_a, row_b]]"
proof -
  have c: "scalar_result source_conn (SelectCount (table1 example_bucket)) \<noteq> 0"
    by (simp add: source_conn_def)
  then have c': "result_rows source_conn (SelectTable (table1 example_bucket)) = []
      \<or> scalar_result source_conn (SelectCount (table1 example_bucket)) \<noteq> 0" ..
  have n: "(0::nat) < 1" and m: "(0::nat) < 100" by simp_all
  note t = batch_size_invariance [OF example_bucket_staged c' n m]
  have r: "result_rows source_conn s = [row_a, row_b]" for s
    by (simp add: source_conn_def)
  have i1: "inserted (fst (copy_table1_to_engine2_n 1 example_bucket source_conn)) = [[row_a], [row_b]]"
    by code_simp
  have i2: "inserted (fst (copy_table1_to_engine2_n 100 example_bucket source_conn)) = [[row_a, row_b]]"
    by code_simp
  from t have "snd (copy_table1_to_engine2_n 1 example_bucket source_conn) =
       snd (copy_table1_to_engine2_n 100 example_bucket source_conn)" by blast
  moreover from t have "snd (copy_table1_to_engine2_n 1 example_bucket source_conn) =
      Inr (int (length (result_rows source_conn (SelectTable (table1 example_bucket)))))"
    by blast
  then have "snd (copy_table1_to_engine2_n 1 example_bucket source_conn) = Inr 2"
    by (simp add: r)
  ultimately show ?thesis using example_bucket_staged c i1 i2 by simp
qed

text \<open>
  Claim C6, as the code has it: when the count of the source table is 0 and the
  streaming read yields no row, the body of the loop never runs. The transfer divides
  by nothing and raises nothing, executes no insert, and prints the header and the
  closing blank line only: no progress line, so no percentage either.
\<close>

theorem copy_empty_source:
  assumes "scalar_result conn1 (SelectCount (table1 b)) = 0"
    and "result_rows conn1 (SelectTable (table1 b)) = []"
  shows "copy_table1_to_engine2 b conn1 =
           ([Print Banner, Print (Transferring (t1name b) (host1 b) (host2 b)),
             Execute1 (SelectCount (table1 b)), Execute1 (SelectTable (table1 b)),
             Print Blank], Inr 0)
       \<and> executed2 (fst (copy_table1_to_engine2 b conn1)) = []
       \<and> filter is_progress (printed (fst (copy_table1_to_engine2 b conn1))) = []"
  using assms
  by (simp add: copy_table1_to_engine2_def copy_table1_to_engine2_n_def partitions_Nil)

theorem copy_empty_source_witness:
  "scalar_result empty_conn (SelectCount (table1 example_bucket)) = 0
   \<and> result_rows empty_conn (SelectTable (table1 example_bucket)) = []
   \<and> printed (fst (copy_table1_to_engine2 example_bucket empty_conn)) =
       [Banner, Transferring ''legacy_orders'' ''old-db'' ''new-db'', Blank]
   \<and> snd (copy_table1_to_engine2 example_bucket empty_conn) = Inr 0"
proof -
  have c: "scalar_result empty_conn (SelectCount (table1 example_bucket)) = 0"
    and r: "result_rows empty_conn (SelectTable (table1 example_bucket)) = []"
    by (simp_all add: empty_conn_def)
  have nm: "t1name example_bucket = ''legacy_orders''" "host2 example_bucket = ''new-db''"
    "host1 example_bucket = ''old-db''"
    by (simp_all add: example_bucket_def staged_def bucket0_def)
  from copy_empty_source [OF c r]
  have "copy_table1_to_engine2 example_bucket empty_conn =
           ([Print Banner, Print (Transferring ''legacy_orders'' ''old-db'' ''new-db''),
             Execute1 (SelectCount (table1 example_bucket)),
             Execute1 (SelectTable (table1 example_bucket)),
             Print Blank], Inr 0)"
    unfolding nm by blast
  then show ?thesis using c r by simp
qed

text \<open>
  Claim C6 as stated fails. For an empty source table no progress line is printed at
  all, so no figure of 0 percent is reported; and the division is not guarded: when
  the count was 0 and the read still yields a row, the first progress line raises
  \<^verbatim>\<open>ZeroDivisionError\<close>, after the batch was inserted.
\<close>

theorem copy_zero_count_unguarded:
  "scalar_result empty_conn (SelectCount (table1 example_bucket)) = 0
   \<and> \<not> list_ex is_progress (printed (fst (copy_table1_to_engine2 example_bucket empty_conn)))
   \<and> scalar_result late_row_conn (SelectCount (table1 example_bucket)) = 0
   \<and> snd (copy_table1_to_engine2 example_bucket late_row_conn) = Inl ZeroDivisionError
   \<and> inserted (fst (copy_table1_to_engine2 example_bucket late_row_conn)) = [[row_a]]"
  by code_simp


section \<open>The driver\<close>

lemma run_txn_append:
  "run_txn step s (xs @ ys) =
     (case run_txn step s xs of None \<Rightarrow> None | Some s' \<Rightarrow> run_txn step s' ys)"
  by (induction xs arbitrary: s) (simp_all split: option.splits)

lemma run_txn_copy_loop: "run_txn txn_step_code Open2 (fst (copy_loop b rc ps ri)) = Some Open2"
  by (induction ps arbitrary: ri) (simp_all add: Let_def split_beta split: option.splits sum.splits)

lemma run_txn_copy: "run_txn txn_step_code Open2 (fst (copy_table1_to_engine2 b c)) = Some Open2"
  by (simp add: copy_table1_to_engine2_def copy_table1_to_engine2_n_def Let_def split_beta
      run_txn_append run_txn_copy_loop split: sum.splits)

lemma run_txn_row_lines: "run_txn txn_step_code s (map (\<lambda>r. Print (RowLine r)) rs) = Some s"
  by (induction rs) simp_all

lemma run_txn_samples: "run_txn txn_step_code s (sample_lines rc rs) = Some s"
  by (simp add: sample_lines_def run_txn_row_lines)

lemma run_txn_compare: "run_txn txn_step_code Open2 (fst (compare_tables b c)) = Some Open2"
  by (simp add: compare_tables_def Let_def run_txn_append run_txn_samples
      split: option.splits sum.splits)

lemma run_txn_run_pair: "run_txn txn_step_code Created (fst (run_pair w k b)) = Some Idle"
  by (simp add: run_pair_def Let_def split_beta run_txn_append run_txn_copy run_txn_compare
      split: sum.splits)

lemma run_txn_create: "run_txn txn_step_code Idle (fst (create_table1_in_engine2 b)) = Some Created"
  by (simp add: create_table1_in_engine2_def Let_def)

lemma run_txn_reflect1: "run_txn txn_step_code s (fst (reflect_table1 w n)) = Some s"
  by (simp add: reflect_table1_def split: sum.splits option.splits prod.splits)

lemma run_txn_reflect2: "run_txn txn_step_code s (fst (reflect_table2 w n)) = Some s"
  by (simp add: reflect_table2_def split: sum.splits option.splits prod.splits)

lemma run_txn_process_entry:
  "run_txn txn_step_code Idle (fst (process_entry w ia ic k e)) = Some Idle"
  by (simp add: process_entry_def Let_def split_beta run_txn_append run_txn_create
      run_txn_run_pair run_txn_reflect1 run_txn_reflect2 split: sum.splits)

lemma run_txn_loop:
  "run_txn txn_step_code Idle (fst (recorddiff_loop w ia ic k es)) = Some Idle"
proof (induction es arbitrary: k)
  case Nil
  then show ?case by simp
next
  case (Cons e es)
  have "run_txn txn_step_code Idle (fst (process_entry w ia ic k e)) = Some Idle"
    by (rule run_txn_process_entry)
  with Cons.IH [of "Suc k"] show ?case
    by (simp add: split_beta run_txn_append split: sum.splits prod.splits)
qed

text \<open>
  Claim C5, as the code has it: in every run, for every table pair, the staging table
  is created through the target engine before the transaction on the target
  connection is opened, outside of it; exactly one transaction on the target
  connection follows each creation, and the batch inserts and the four statements of
  the comparison of that pair are all executed inside it. The package issues no
  statement that drops the staging table.
\<close>

theorem staging_created_before_transaction:
  "run_txn txn_step_code Idle (fst (recorddiff w tables ia ic)) = Some Idle"
  by (simp add: recorddiff_def run_txn_loop)

text \<open>
  The pair \<^verbatim>\<open>('legacy_orders', 'orders_v2')\<close>, followed for one run: one table
  created, then one batch insert and the four statements of the comparison.
\<close>

theorem staging_created_before_transaction_witness:
  "run_txn txn_step_code Idle
     (fst (recorddiff example_world [PySeq [PyStr ''legacy_orders'', PyStr ''orders_v2'']] [] []))
   = Some Idle
   \<and> length (created
       (fst (recorddiff example_world [PySeq [PyStr ''legacy_orders'', PyStr ''orders_v2'']] [] [])))
     = 1
   \<and> length (executed2
       (fst (recorddiff example_world [PySeq [PyStr ''legacy_orders'', PyStr ''orders_v2'']] [] [])))
     = 5"
proof -
  have "length (created
       (fst (recorddiff example_world [PySeq [PyStr ''legacy_orders'', PyStr ''orders_v2'']] [] [])))
     = 1
   \<and> length (executed2
       (fst (recorddiff example_world [PySeq [PyStr ''legacy_orders'', PyStr ''orders_v2'']] [] [])))
     = 5"
    by code_simp
  with staging_created_before_transaction
         [of example_world "[PySeq [PyStr ''legacy_orders'', PyStr ''orders_v2'']]" "[]" "[]"]
  show ?thesis by (rule conjI)
qed

text \<open>
  Claim C5 as stated fails: in the run for the pair \<^verbatim>\<open>('legacy_orders', 'orders_v2')\<close>
  the table is created when no transaction on the target connection is open, so the
  discipline of the specification rejects the run.
\<close>

theorem staging_created_outside_transaction:
  "run_txn txn_step_spec Idle
     (fst (recorddiff example_world [PySeq [PyStr ''legacy_orders'', PyStr ''orders_v2'']] [] []))
   = None"
  by code_simp

lemma example_run_shape:
  "map (\<lambda>e. case e of CreateTable t \<Rightarrow> ''create'' | Begin2 \<Rightarrow> ''begin''
              | Execute2 (Insert t) ps \<Rightarrow> ''insert'' | Execute2 q ps \<Rightarrow> ''select''
              | Commit2 \<Rightarrow> ''commit'' | Rollback2 \<Rightarrow> ''rollback'' | _ \<Rightarrow> '''')
     (filter (\<lambda>e. case e of CreateTable t \<Rightarrow> True | Begin2 \<Rightarrow> True | Execute2 q ps \<Rightarrow> True
                    | Commit2 \<Rightarrow> True | Rollback2 \<Rightarrow> True | _ \<Rightarrow> False)
        (fst (recorddiff example_world [PySeq [PyStr ''legacy_orders'', PyStr ''orders_v2'']] [] [])))
   = [''create'', ''begin'', ''insert'', ''select'', ''select'', ''select'', ''select'', ''commit'']"
  by code_simp

lemma extract_name_not_str: "\<not> is_str v \<Longrightarrow> extract_name v = Inl TypeError"
  by (cases v) simp_all

lemma process_entry_rejected:
  "rejected_early e \<Longrightarrow> process_entry w ia ic k e = ([], Inl (early_error e))"
  by (cases e) (auto simp: process_entry_def reflect_table1_def extract_name_not_str)

lemma recorddiff_loop_append:
  "recorddiff_loop w ia ic k (xs @ ys) =
     (case snd (recorddiff_loop w ia ic k xs) of
        Inl e \<Rightarrow> recorddiff_loop w ia ic k xs
      | Inr u \<Rightarrow>
          (fst (recorddiff_loop w ia ic k xs) @ fst (recorddiff_loop w ia ic (k + length xs) ys),
           snd (recorddiff_loop w ia ic (k + length xs) ys)))"
  by (induction xs arbitrary: k) (auto simp: split_beta split: sum.splits prod.splits)

text \<open>
  Claim C9, as the code has it: an entry that is neither a string nor a sequence of
  two members, or a sequence of two members whose first is not a string, makes the run
  fail when its turn comes (\<^verbatim>\<open>AssertionError\<close> for a sequence of another length,
  \<^verbatim>\<open>TypeError\<close> otherwise), and nothing happens for it before: the events of the run
  are those of the entries before it, with no reflection, staging or transfer added.
\<close>

theorem malformed_entry_fails_first:
  assumes "eng_name (w_engine2 w) \<noteq> ''oracle''"
    and "rejected_early e"
    and "snd (recorddiff w pre ia ic) = Inr ()"
  shows "recorddiff w (pre @ e # post) ia ic =
           (fst (recorddiff w pre ia ic), Inl (early_error e))"
  using assms
  by (simp add: recorddiff_def recorddiff_loop_append process_entry_rejected)

text \<open>A good pair, then a sequence of three names, then one more name.\<close>

theorem malformed_entry_fails_first_witness:
  "eng_name (w_engine2 example_world) \<noteq> ''oracle''
   \<and> rejected_early (PySeq [PyStr ''a'', PyStr ''b'', PyStr ''c''])
   \<and> snd (recorddiff example_world [PySeq [PyStr ''legacy_orders'', PyStr ''orders_v2'']] [] [])
       = Inr ()
   \<and> recorddiff example_world
       ([PySeq [PyStr ''legacy_orders'', PyStr ''orders_v2'']]
        @ PySeq [PyStr ''a'', PyStr ''b'', PyStr ''c''] # [PyStr ''orders''])
       [] []
     = (fst (recorddiff example_world [PySeq [PyStr ''legacy_orders'', PyStr ''orders_v2'']] [] []),
        Inl AssertionError)"
proof -
  have o: "eng_name (w_engine2 example_world) \<noteq> ''oracle''"
    by (simp add: example_world_def new_engine_def)
  have r: "rejected_early (PySeq [PyStr ''a'', PyStr ''b'', PyStr ''c''])"
    by simp
  have p: "snd (recorddiff example_world [PySeq [PyStr ''legacy_orders'', PyStr ''orders_v2'']] [] [])
       = Inr ()"
    by code_simp
  have e: "early_error (PySeq [PyStr ''a'', PyStr ''b'', PyStr ''c'']) = AssertionError"
    by simp
  from malformed_entry_fails_first [OF o r p, of "[PyStr ''orders'']"] o r p
  show ?thesis unfolding e by blast
qed

text \<open>
  Claim C9 as stated fails: the pair \<^verbatim>\<open>('legacy_orders', 5)\<close> is neither a name nor a
  pair of names, and the run raises \<^verbatim>\<open>TypeError\<close> for it only after the first table
  has been reflected.
\<close>

theorem second_name_checked_after_reflection:
  "\<not> name_or_pair (PySeq [PyStr ''legacy_orders'', PyOther 5])
   \<and> recorddiff example_world [PySeq [PyStr ''legacy_orders'', PyOther 5]] [] []
     = ([Reflect1 None ''legacy_orders''], Inl TypeError)"
  by code_simp

end
